theory Spec2Isabelle
  imports Main
begin

section \<open>Values, exceptions and responses\<close>

text \<open>
  The server in \<^verbatim>\<open>server.py\<close> is a FastAPI application. Its own code is embedded
  here function by function; everything it calls in the Google client libraries, in the
  provider, in the file system and in the interpreter's \<^verbatim>\<open>str\<close> is a field of the
  record \<open>env\<close> below, so that every theorem holds for whatever those collaborators do.

  A Python \<^verbatim>\<open>str\<close> is represented by its UTF-8 encoding, a \<open>string\<close> of bytes. A lone
  surrogate code point (U+D800 to U+DFFF), which a \<^verbatim>\<open>str\<close> may hold and which
  \<^verbatim>\<open>json.loads\<close> produces from an escape such as \<^verbatim>\<open>\udc80\<close>, is represented by the three
  bytes that the error handler \<^verbatim>\<open>surrogatepass\<close> gives it: \<open>0xED\<close>, then a byte from
  \<open>0xA0\<close> to \<open>0xBF\<close>, then a continuation byte. The representation is one to one
  and commutes with concatenation; an ASCII literal is its own representation.

  A Python \<^verbatim>\<open>float\<close> as \<^verbatim>\<open>json.loads\<close> produces it: a finite value \<open>m * 2 ^ e\<close>, or one
  of the three values that are not finite (\<^verbatim>\<open>1e999\<close> and \<^verbatim>\<open>Infinity\<close> decode to
  \<open>PosInf\<close>, \<^verbatim>\<open>-Infinity\<close> to \<open>NegInf\<close>, \<^verbatim>\<open>NaN\<close> to \<open>NaN\<close>). The server computes
  nothing with numbers.
\<close>

datatype pyfloat = Finite int int | PosInf | NegInf | NaN

text \<open>
  A decoded JSON document. An object is the association list of its members, looked up
  with \<open>map_of\<close>. Python's \<^verbatim>\<open>None\<close> is \<open>JNull\<close>.
\<close>

datatype json =
    JNull
  | JBool bool
  | JInt int
  | JFloat pyfloat
  | JStr string
  | JArr "json list"
  | JObj "(string \<times> json) list"

text \<open>
  The exceptions the handler tells apart, in the order of its \<^verbatim>\<open>except\<close> clauses:
  \<^verbatim>\<open>KeyError\<close> (carrying \<^verbatim>\<open>str(ke)\<close>), FastAPI's \<^verbatim>\<open>HTTPException\<close> (status code
  and detail), and every other exception (carrying \<^verbatim>\<open>str(e)\<close>).
\<close>

datatype exn =
    KeyError string
  | HTTPException nat string
  | Error string

datatype content = Json json | Html string | Plain string

record response =
  status_code :: nat
  content :: content

text \<open>Python truthiness of a decoded JSON value, as \<^verbatim>\<open>x or {}\<close> tests it.\<close>

fun truthy :: "json \<Rightarrow> bool" where
  "truthy JNull = False"
| "truthy (JBool b) = b"
| "truthy (JInt i) = (i \<noteq> 0)"
| "truthy (JFloat f) = (case f of Finite m e \<Rightarrow> m \<noteq> 0 | _ \<Rightarrow> True)"
| "truthy (JStr s) = (s \<noteq> [])"
| "truthy (JArr xs) = (xs \<noteq> [])"
| "truthy (JObj kvs) = (kvs \<noteq> [])"

text \<open>\<^verbatim>\<open>d.get(key, default)\<close> on a dict.\<close>

definition dict_get :: "(string \<times> json) list \<Rightarrow> string \<Rightarrow> json \<Rightarrow> json" where
  "dict_get d key dflt = (case map_of d key of None \<Rightarrow> dflt | Some v \<Rightarrow> v)"

text \<open>
  \<^verbatim>\<open>repr\<close> of a key. The keys the server looks up are plain identifiers, for which
  \<^verbatim>\<open>repr\<close> is the key between single quotes; \<^verbatim>\<open>str\<close> of a \<^verbatim>\<open>KeyError\<close> is the
  \<^verbatim>\<open>repr\<close> of its key.
\<close>

definition repr_key :: "string \<Rightarrow> string" where
  "repr_key key = [CHR 0x27] @ key @ [CHR 0x27]"

definition type_name :: "json \<Rightarrow> string" where
  "type_name v =
     (case v of
        JNull \<Rightarrow> ''NoneType''
      | JBool _ \<Rightarrow> ''bool''
      | JInt _ \<Rightarrow> ''int''
      | JFloat _ \<Rightarrow> ''float''
      | JStr _ \<Rightarrow> ''str''
      | JArr _ \<Rightarrow> ''list''
      | JObj _ \<Rightarrow> ''dict'')"

text \<open>
  \<^verbatim>\<open>v[key]\<close> with a string key: a dict raises \<^verbatim>\<open>KeyError\<close> on a missing key; every
  other value raises \<^verbatim>\<open>TypeError\<close> (texts of CPython 3.11).
\<close>

definition getitem :: "json \<Rightarrow> string \<Rightarrow> exn + json" where
  "getitem v key =
     (case v of
        JObj d \<Rightarrow> (case map_of d key of None \<Rightarrow> Inl (KeyError (repr_key key)) | Some x \<Rightarrow> Inr x)
      | JArr _ \<Rightarrow> Inl (Error ''list indices must be integers or slices, not str'')
      | JStr _ \<Rightarrow> Inl (Error (''string indices must be integers, not '' @ repr_key ''str''))
      | _ \<Rightarrow> Inl (Error (repr_key (type_name v) @ '' object is not subscriptable'')))"

text \<open>\<^verbatim>\<open>v.get(key, default)\<close>: only a dict has the method.\<close>

definition no_attribute :: "json \<Rightarrow> string \<Rightarrow> exn" where
  "no_attribute v name =
     Error (repr_key (type_name v) @ '' object has no attribute '' @ repr_key name)"

definition get_method :: "json \<Rightarrow> string \<Rightarrow> json \<Rightarrow> exn + json" where
  "get_method v key dflt =
     (case v of JObj d \<Rightarrow> Inr (dict_get d key dflt) | _ \<Rightarrow> Inl (no_attribute v ''get''))"

text \<open>\<^verbatim>\<open>",".join(keys)\<close>.\<close>

fun join_comma :: "string list \<Rightarrow> string" where
  "join_comma [] = []"
| "join_comma [k] = k"
| "join_comma (k # ks) = k @ '','' @ join_comma ks"

text \<open>
  What Starlette's \<^verbatim>\<open>JSONResponse\<close> can render. It renders its content when it is
  constructed, with \<^verbatim>\<open>json.dumps(content, allow_nan=False, ...).encode("utf-8")\<close>:
  a float that is not finite raises \<^verbatim>\<open>ValueError\<close>, and a string holding a lone
  surrogate, as a value or as a key, raises \<^verbatim>\<open>UnicodeEncodeError\<close>.
\<close>

fun has_surrogate :: "string \<Rightarrow> bool" where
  "has_surrogate (a # b # cs) =
     (a = CHR 0xED \<and> (0xA0 :: nat) \<le> of_char b \<or> has_surrogate (b # cs))"
| "has_surrogate [a] = False"
| "has_surrogate [] = False"

definition utf8_ok :: "string \<Rightarrow> bool" where
  "utf8_ok s = (\<not> has_surrogate s)"

fun renderable :: "json \<Rightarrow> bool"
  and renderable_list :: "json list \<Rightarrow> bool"
  and renderable_members :: "(string \<times> json) list \<Rightarrow> bool" where
  "renderable JNull = True"
| "renderable (JBool b) = True"
| "renderable (JInt i) = True"
| "renderable (JFloat f) = (case f of Finite m e \<Rightarrow> True | _ \<Rightarrow> False)"
| "renderable (JStr s) = utf8_ok s"
| "renderable (JArr xs) = renderable_list xs"
| "renderable (JObj kvs) = renderable_members kvs"
| "renderable_list [] = True"
| "renderable_list (x # xs) = (renderable x \<and> renderable_list xs)"
| "renderable_members [] = True"
| "renderable_members ((k, v) # kvs) = (utf8_ok k \<and> renderable v \<and> renderable_members kvs)"

section \<open>The credential record, the environment and the state\<close>

text \<open>
  The fields of \<^verbatim>\<open>google.oauth2.credentials.Credentials\<close> that the specification
  names. The server itself reads \<^verbatim>\<open>refresh_token\<close> and the property \<^verbatim>\<open>expired\<close>.
\<close>

record creds =
  token :: string
  refresh_token :: "string option"
  expiry :: "int option"

text \<open>The requests the server hands to the Google client and executes.\<close>

datatype remote_call =
    FilesList string nat string
  | DocumentsGet json
  | DocumentsBatchUpdate json json

text \<open>
  What the server does not define itself:
  \<^item> \<open>parse_creds\<close>: opening and reading the token file, \<^verbatim>\<open>json.load\<close> and
    \<^verbatim>\<open>Credentials.from_authorized_user_info\<close>, on the text of the token file;
  \<^item> \<open>to_json\<close>: the text \<^verbatim>\<open>creds.to_json()\<close>;
  \<^item> \<open>write_error\<close>: what the block
    \<^verbatim>\<open>with open(TOKEN_FILE, "w") as f: f.write(creds.to_json())\<close> raises, if anything:
    \<open>None\<close> when it completes (the file then holds \<open>to_json\<close> of the record), or the
    text \<^verbatim>\<open>str(e)\<close> of the exception with the state it leaves the file in (untouched,
    truncated, ...);
  \<^item> \<open>remove_fails\<close>: whether \<^verbatim>\<open>os.remove(TOKEN_FILE)\<close> raises, leaving the file as it is;
  \<^item> \<open>expired\<close>: the property \<^verbatim>\<open>creds.expired\<close> at the time of the call;
  \<^item> \<open>refresh\<close>: \<^verbatim>\<open>creds.refresh(GoogleAuthRequest())\<close>, the refreshed record or the
    text \<^verbatim>\<open>str(e)\<close> of the exception raised;
  \<^item> \<open>build\<close>: \<^verbatim>\<open>build(service, version, credentials=creds)\<close>, which may raise;
  \<^item> \<open>execute\<close>: building and executing one remote request with a service built from
    the credentials, the decoded reply or the exception raised;
  \<^item> \<open>flow_from_client_secrets\<close>: \<^verbatim>\<open>Flow.from_client_secrets_file\<close>, which may raise;
  \<^item> \<open>fetch_token\<close>: \<^verbatim>\<open>flow.fetch_token(code=code)\<close> then \<^verbatim>\<open>flow.credentials\<close>;
  \<^item> \<open>str_other\<close>: Python's \<^verbatim>\<open>str\<close> on a decoded JSON value that is not a string;
  \<^item> \<open>render_error\<close>: the text \<^verbatim>\<open>str(e)\<close> of the exception that rendering a content
    raises when it cannot be rendered.
\<close>

record env =
  parse_creds :: "string \<Rightarrow> exn + creds"
  to_json :: "creds \<Rightarrow> string"
  write_error :: "creds \<Rightarrow> (string \<times> string option) option"
  remove_fails :: bool
  expired :: "creds \<Rightarrow> bool"
  refresh :: "creds \<Rightarrow> string + creds"
  build :: "string \<Rightarrow> string \<Rightarrow> creds \<Rightarrow> exn option"
  execute :: "creds \<Rightarrow> remote_call \<Rightarrow> exn + (string \<times> json) list"
  flow_from_client_secrets :: "exn option"
  fetch_token :: "string \<Rightarrow> exn + creds"
  str_other :: "json \<Rightarrow> string"
  render_error :: "json \<Rightarrow> string"

text \<open>
  The state: the text of the token file \<^verbatim>\<open>TOKEN_FILE\<close> (\<open>None\<close> when the file does not
  exist) and the journal of the remote requests executed so far, oldest first.
\<close>

record world =
  token_file :: "string option"
  issued :: "remote_call list"

text \<open>\<^verbatim>\<open>str(v)\<close>, as an f-string formats a value.\<close>

definition py_str :: "env \<Rightarrow> json \<Rightarrow> string" where
  "py_str env v = (case v of JStr s \<Rightarrow> s | _ \<Rightarrow> str_other env v)"

text \<open>Truthiness of \<^verbatim>\<open>creds.refresh_token\<close>: absent and empty are both false.\<close>

definition truthy_token :: "string option \<Rightarrow> bool" where
  "truthy_token t = (case t of None \<Rightarrow> False | Some s \<Rightarrow> s \<noteq> [])"

section \<open>Credential manager: \<^verbatim>\<open>load_creds\<close>\<close>

text \<open>
  The \<^verbatim>\<open>except\<close> clause of lines 87 to 93, entered with the text \<^verbatim>\<open>str(e)\<close>: the token
  file is removed, a failure of the removal is ignored, and 401 is raised.
\<close>

definition refresh_failed :: "env \<Rightarrow> world \<Rightarrow> string \<Rightarrow> world \<times> (exn + creds)" where
  "refresh_failed env w msg =
     (if remove_fails env then w else w\<lparr>token_file := None\<rparr>,
      Inl (HTTPException 401 (''Failed to refresh credentials: '' @ msg)))"

text \<open>
  \<^verbatim>\<open>load_creds\<close>, lines 69 to 95. A \<^verbatim>\<open>Credentials\<close> object is always truthy, so the
  guard of line 82 is \<^verbatim>\<open>creds.expired and creds.refresh_token\<close>. The refresh and the
  write of the refreshed record are both inside the \<^verbatim>\<open>try\<close>.
\<close>

definition load_creds :: "env \<Rightarrow> world \<Rightarrow> world \<times> (exn + creds)" where
  "load_creds env w =
     (case token_file w of
        None \<Rightarrow> (w, Inl (HTTPException 401 ''User not authorized. Visit /authorize''))
      | Some text \<Rightarrow>
          (case parse_creds env text of
             Inl e \<Rightarrow> (w, Inl e)
           | Inr c \<Rightarrow>
               if expired env c \<and> truthy_token (refresh_token c) then
                 (case refresh env c of
                    Inl msg \<Rightarrow> refresh_failed env w msg
                  | Inr c' \<Rightarrow>
                      (case write_error env c' of
                         None \<Rightarrow> (w\<lparr>token_file := Some (to_json env c')\<rparr>, Inr c')
                       | Some (msg, left) \<Rightarrow>
                           refresh_failed env (w\<lparr>token_file := left\<rparr>) msg))
               else (w, Inr c)))"

section \<open>Document API adapter\<close>

text \<open>Executing a request appends it to the journal, whether the reply is an error or not.\<close>

definition run :: "env \<Rightarrow> world \<Rightarrow> creds \<Rightarrow> remote_call \<Rightarrow> world \<times> (exn + (string \<times> json) list)" where
  "run env w c call = (w\<lparr>issued := issued w @ [call]\<rparr>, execute env c call)"

text \<open>
  \<^verbatim>\<open>docs.documents().batchUpdate(documentId=document_id, body={"requests": requests}).execute()\<close>
  followed by \<^verbatim>\<open>return {"status": "ok", "updates": resp.get("replies")}\<close>: the tail
  shared by \<^verbatim>\<open>insert_text\<close> and both branches of \<^verbatim>\<open>format_range\<close>.
\<close>

definition batch_update :: "env \<Rightarrow> world \<Rightarrow> creds \<Rightarrow> json \<Rightarrow> json list \<Rightarrow> world \<times> (exn + json)" where
  "batch_update env w c document_id requests =
     (case run env w c (DocumentsBatchUpdate document_id (JObj [(''requests'', JArr requests)])) of
        (w', Inl e) \<Rightarrow> (w', Inl e)
      | (w', Inr resp) \<Rightarrow>
          (w', Inr (JObj [(''status'', JStr ''ok''), (''updates'', dict_get resp ''replies'' JNull)])))"

definition list_docs :: "env \<Rightarrow> world \<Rightarrow> world \<times> (exn + json)" where
  "list_docs env w =
     (case load_creds env w of
        (w1, Inl e) \<Rightarrow> (w1, Inl e)
      | (w1, Inr c) \<Rightarrow>
          (case build env ''drive'' ''v3'' c of
             Some e \<Rightarrow> (w1, Inl e)
           | None \<Rightarrow>
               (case run env w1 c
                       (FilesList (''mimeType='' @ repr_key ''application/vnd.google-apps.document''
                                     @ '' and trashed=false'') 50 ''files(id,name)'') of
                  (w2, Inl e) \<Rightarrow> (w2, Inl e)
                | (w2, Inr files) \<Rightarrow> (w2, Inr (dict_get files ''files'' (JArr []))))))"

definition get_doc :: "env \<Rightarrow> world \<Rightarrow> json \<Rightarrow> world \<times> (exn + json)" where
  "get_doc env w document_id =
     (case load_creds env w of
        (w1, Inl e) \<Rightarrow> (w1, Inl e)
      | (w1, Inr c) \<Rightarrow>
          (case build env ''docs'' ''v1'' c of
             Some e \<Rightarrow> (w1, Inl e)
           | None \<Rightarrow>
               (case run env w1 c (DocumentsGet document_id) of
                  (w2, Inl e) \<Rightarrow> (w2, Inl e)
                | (w2, Inr doc) \<Rightarrow>
                    (w2, Inr (JObj [(''title'', dict_get doc ''title'' JNull),
                                    (''body'', dict_get doc ''body'' JNull)])))))"

definition insert_text :: "env \<Rightarrow> world \<Rightarrow> json \<Rightarrow> json \<Rightarrow> json \<Rightarrow> world \<times> (exn + json)" where
  "insert_text env w document_id text index =
     (case load_creds env w of
        (w1, Inl e) \<Rightarrow> (w1, Inl e)
      | (w1, Inr c) \<Rightarrow>
          (case build env ''docs'' ''v1'' c of
             Some e \<Rightarrow> (w1, Inl e)
           | None \<Rightarrow>
               batch_update env w1 c document_id
                 [JObj [(''insertText'',
                    JObj [(''location'', JObj [(''index'', index)]), (''text'', text)])]]))"

text \<open>The two request shapes of \<^verbatim>\<open>format_range\<close>, lines 172 to 180 and 187 to 195.\<close>

definition paragraph_style_request :: "json \<Rightarrow> json \<Rightarrow> json" where
  "paragraph_style_request start_index end_index =
     JObj [(''updateParagraphStyle'',
       JObj [(''range'', JObj [(''startIndex'', start_index), (''endIndex'', end_index)]),
             (''paragraphStyle'', JObj [(''namedStyleType'', JStr ''HEADING_1'')]),
             (''fields'', JStr ''namedStyleType'')])]"

definition text_style_request :: "json \<Rightarrow> json \<Rightarrow> (string \<times> json) list \<Rightarrow> json" where
  "text_style_request start_index end_index style =
     JObj [(''updateTextStyle'',
       JObj [(''range'', JObj [(''startIndex'', start_index), (''endIndex'', end_index)]),
             (''textStyle'', JObj style),
             (''fields'', JStr (join_comma (map fst style)))])]"

definition format_range :: "env \<Rightarrow> world \<Rightarrow> json \<Rightarrow> json \<Rightarrow> json \<Rightarrow> json \<Rightarrow> world \<times> (exn + json)" where
  "format_range env w document_id start_index end_index format =
     (case load_creds env w of
        (w1, Inl e) \<Rightarrow> (w1, Inl e)
      | (w1, Inr c) \<Rightarrow>
          (case build env ''docs'' ''v1'' c of
             Some e \<Rightarrow> (w1, Inl e)
           | None \<Rightarrow>
               if format = JStr ''bold'' then
                 batch_update env w1 c document_id
                   [text_style_request start_index end_index [(''bold'', JBool True)]]
               else if format = JStr ''italic'' then
                 batch_update env w1 c document_id
                   [text_style_request start_index end_index [(''italic'', JBool True)]]
               else if format = JStr ''heading1'' then
                 batch_update env w1 c document_id
                   [paragraph_style_request start_index end_index]
               else (w1, Inl (Error ''unsupported format''))))"

section \<open>RPC dispatcher: \<^verbatim>\<open>mcp_endpoint\<close>\<close>

text \<open>
  The body of the \<^verbatim>\<open>try\<close> block up to the call of \<^verbatim>\<open>JSONResponse\<close>, lines 112 to 122.
  Arguments are evaluated left to right before the operation is called, so a missing
  key is raised before any credential is loaded.
\<close>

definition dispatch :: "env \<Rightarrow> world \<Rightarrow> json \<Rightarrow> json \<Rightarrow> world \<times> (exn + json)" where
  "dispatch env w method params =
     (if method = JStr ''list_docs'' then list_docs env w
      else if method = JStr ''get_doc'' then
        (case getitem params ''documentId'' of
           Inl e \<Rightarrow> (w, Inl e)
         | Inr document_id \<Rightarrow> get_doc env w document_id)
      else if method = JStr ''insert_text'' then
        (case getitem params ''documentId'' of
           Inl e \<Rightarrow> (w, Inl e)
         | Inr document_id \<Rightarrow>
             (case getitem params ''text'' of
                Inl e \<Rightarrow> (w, Inl e)
              | Inr text \<Rightarrow>
                  (case get_method params ''index'' (JInt 1) of
                     Inl e \<Rightarrow> (w, Inl e)
                   | Inr index \<Rightarrow> insert_text env w document_id text index)))
      else if method = JStr ''format_range'' then
        (case getitem params ''documentId'' of
           Inl e \<Rightarrow> (w, Inl e)
         | Inr document_id \<Rightarrow>
             (case getitem params ''start_index'' of
                Inl e \<Rightarrow> (w, Inl e)
              | Inr start_index \<Rightarrow>
                  (case getitem params ''end_index'' of
                     Inl e \<Rightarrow> (w, Inl e)
                   | Inr end_index \<Rightarrow>
                       (case getitem params ''format'' of
                          Inl e \<Rightarrow> (w, Inl e)
                        | Inr format \<Rightarrow>
                            format_range env w document_id start_index end_index format))))
      else (w, Inl (HTTPException 400 (''Unknown method '' @ py_str env method))))"

text \<open>
  The two envelopes, and \<^verbatim>\<open>JSONResponse\<close> (status 200 unless given), which renders its
  content at construction and raises when the content cannot be rendered.
\<close>

definition result_envelope :: "json \<Rightarrow> json \<Rightarrow> json" where
  "result_envelope request_id result =
     JObj [(''jsonrpc'', JStr ''2.0''), (''id'', request_id), (''result'', result)]"

definition error_envelope :: "json \<Rightarrow> string \<Rightarrow> json" where
  "error_envelope request_id message =
     JObj [(''jsonrpc'', JStr ''2.0''), (''id'', request_id),
           (''error'', JObj [(''message'', JStr message)])]"

definition JSONResponse :: "env \<Rightarrow> json \<Rightarrow> nat \<Rightarrow> exn + response" where
  "JSONResponse env body code =
     (if renderable body then Inr \<lparr>status_code = code, content = Json body\<rparr>
      else Inl (Error (render_error env body)))"

text \<open>\<^verbatim>\<open>params = body.get("params", {}) or {}\<close>.\<close>

definition request_params :: "(string \<times> json) list \<Rightarrow> json" where
  "request_params b = (let p = dict_get b ''params'' (JObj []) in if truthy p then p else JObj [])"

text \<open>
  \<^verbatim>\<open>mcp_endpoint\<close>, lines 100 to 130, applied to the decoded body of the request. The
  three \<^verbatim>\<open>body.get\<close> calls stand before the \<^verbatim>\<open>try\<close>: on a body that is not a JSON
  object the first one raises \<^verbatim>\<open>AttributeError\<close>, which leaves the handler (\<open>Inl\<close>).
  The response of line 124 is constructed inside the \<^verbatim>\<open>try\<close>, so an exception of its
  rendering is caught by the last \<^verbatim>\<open>except\<close> clause; the responses of lines 126, 128
  and 130 are constructed inside the \<^verbatim>\<open>except\<close> clauses, so an exception of their
  rendering leaves the handler.
\<close>

definition mcp_endpoint :: "env \<Rightarrow> world \<Rightarrow> json \<Rightarrow> world \<times> (exn + response)" where
  "mcp_endpoint env w body =
     (case body of
        JObj b \<Rightarrow>
          (let method = dict_get b ''method'' JNull;
               params = request_params b;
               request_id = dict_get b ''id'' JNull
           in case (case dispatch env w method params of
                      (w', Inr result) \<Rightarrow>
                        (w', JSONResponse env (result_envelope request_id result) 200)
                    | (w', Inl e) \<Rightarrow> (w', Inl e)) of
                (w', Inr resp) \<Rightarrow> (w', Inr resp)
              | (w', Inl (KeyError ke)) \<Rightarrow>
                  (w', JSONResponse env (error_envelope request_id (''missing param: '' @ ke)) 400)
              | (w', Inl (HTTPException code detail)) \<Rightarrow>
                  (w', JSONResponse env (error_envelope request_id detail) code)
              | (w', Inl (Error msg)) \<Rightarrow>
                  (w', JSONResponse env (error_envelope request_id msg) 500))
      | _ \<Rightarrow> (w, Inl (no_attribute body ''get'')))"

section \<open>Authorization flow: \<^verbatim>\<open>oauth2callback\<close>\<close>

text \<open>
  \<^verbatim>\<open>oauth2callback\<close>, lines 49 to 65, applied to the query parameters of the request
  (\<^verbatim>\<open>request.query_params.get\<close> is the lookup). \<^verbatim>\<open>not code\<close> holds for an absent and for
  an empty parameter. An exception of the write of lines 63 and 64 leaves the handler.
\<close>

definition oauth2callback :: "env \<Rightarrow> world \<Rightarrow> (string \<rightharpoonup> string) \<Rightarrow> world \<times> (exn + response)" where
  "oauth2callback env w query_params =
     (case query_params ''code'' of
        None \<Rightarrow> (w, Inl (HTTPException 400 ''No code in callback''))
      | Some code \<Rightarrow>
          if code = [] then (w, Inl (HTTPException 400 ''No code in callback''))
          else
            (case flow_from_client_secrets env of
               Some e \<Rightarrow> (w, Inl e)
             | None \<Rightarrow>
                 (case fetch_token env code of
                    Inl e \<Rightarrow> (w, Inl e)
                  | Inr c \<Rightarrow>
                      (case write_error env c of
                         Some (msg, left) \<Rightarrow> (w\<lparr>token_file := left\<rparr>, Inl (Error msg))
                       | None \<Rightarrow>
                           (w\<lparr>token_file := Some (to_json env c)\<rparr>,
                            Inr \<lparr>status_code = 200,
                                 content =
                                   Html ''Authorized. You can close this tab. Server ready.''\<rparr>)))))"

text \<open>
  What FastAPI answers when a route returns or raises: an \<^verbatim>\<open>HTTPException\<close> becomes a
  response with its status code and its detail; any other exception becomes the plain
  500 response of the server.
\<close>

definition fastapi_response :: "exn + response \<Rightarrow> response" where
  "fastapi_response r =
     (case r of
        Inr resp \<Rightarrow> resp
      | Inl (HTTPException code detail) \<Rightarrow>
          \<lparr>status_code = code, content = Json (JObj [(''detail'', JStr detail)])\<rparr>
      | Inl _ \<Rightarrow> \<lparr>status_code = 500, content = Plain ''Internal Server Error''\<rparr>)"

section \<open>Concrete collaborators used to instantiate the theorems\<close>

definition stale :: creds where
  "stale = \<lparr>token = ''old'', refresh_token = Some ''r1'', expiry = Some 100\<rparr>"

definition fresh :: creds where
  "fresh = \<lparr>token = ''new'', refresh_token = Some ''r1'', expiry = Some 4000\<rparr>"

definition orphan :: creds where
  "orphan = \<lparr>token = ''lone'', refresh_token = None, expiry = Some 100\<rparr>"

text \<open>
  A provider at time 1000: a record is expired when its expiry is not later; the token
  file holds the access token as its text and can be written and removed; a refresh of
  \<open>stale\<close> yields \<open>fresh\<close>; every remote request is answered with an empty reply list.
\<close>

definition env_ok :: env where
  "env_ok =
     \<lparr>parse_creds = (\<lambda>t. if t = ''old'' then Inr stale
                         else if t = ''new'' then Inr fresh
                         else if t = ''lone'' then Inr orphan
                         else Inl (Error ''bad token file'')),
      to_json = token,
      write_error = (\<lambda>c. None),
      remove_fails = False,
      expired = (\<lambda>c. case expiry c of None \<Rightarrow> False | Some e \<Rightarrow> e \<le> 1000),
      refresh = (\<lambda>c. Inr fresh),
      build = (\<lambda>service version c. None),
      execute = (\<lambda>c call. Inr [(''replies'', JArr [])]),
      flow_from_client_secrets = None,
      fetch_token = (\<lambda>code. Inr fresh),
      str_other = (\<lambda>v. ''?''),
      render_error = (\<lambda>v. ''Out of range float values are not JSON compliant'')\<rparr>"

text \<open>The same provider, except that it rejects every refresh.\<close>

definition env_revoked :: env where
  "env_revoked = env_ok\<lparr>refresh := (\<lambda>c. Inl ''invalid_grant'')\<rparr>"

text \<open>The provider that rejects every refresh, with a token file that cannot be removed.\<close>

definition env_readonly :: env where
  "env_readonly = env_revoked\<lparr>remove_fails := True\<rparr>"


definition world_of :: "string option \<Rightarrow> world" where
  "world_of f = \<lparr>token_file = f, issued = []\<rparr>"

text \<open>A \<^verbatim>\<open>format_range\<close> request for the unsupported format \<^verbatim>\<open>underline\<close>.\<close>

definition underline_request :: json where
  "underline_request =
     JObj [(''method'', JStr ''format_range''),
           (''params'',
            JObj [(''documentId'', JStr ''D''), (''start_index'', JInt 1),
                  (''end_index'', JInt 5), (''format'', JStr ''underline'')]),
           (''id'', JStr ''7'')]"





section \<open>Theorems\<close>

lemma load_creds_absent:
  "token_file w = None \<Longrightarrow>
   load_creds env w = (w, Inl (HTTPException 401 ''User not authorized. Visit /authorize''))"
  by (simp add: load_creds_def)

lemma load_creds_issued: "issued (fst (load_creds env w)) = issued w"
  by (simp add: load_creds_def refresh_failed_def split: option.splits sum.splits prod.splits)

lemma has_surrogate_Cons: "a \<noteq> CHR 0xED \<Longrightarrow> has_surrogate (a # s) = has_surrogate s"
  by (cases s) simp_all

lemma utf8_ok_Cons: "a \<noteq> CHR 0xED \<Longrightarrow> utf8_ok (a # s) = utf8_ok s"
  by (simp add: utf8_ok_def has_surrogate_Cons)

lemma utf8_ok_Nil: "utf8_ok []"
  by (simp add: utf8_ok_def)

lemma renderable_error_envelope:
  "renderable (error_envelope request_id message) = (renderable request_id \<and> utf8_ok message)"
  by (simp add: error_envelope_def utf8_ok_Cons utf8_ok_Nil)


lemma JSONResponse_status:
  "status_code (fastapi_response (JSONResponse env body code)) =
     (if renderable body then code else 500)"
  by (simp add: JSONResponse_def fastapi_response_def)

lemma world_of_simps:
  "token_file (world_of f) = f" "issued (world_of f) = []"
  by (simp_all add: world_of_def)

lemma load_creds_fresh:
  "load_creds env_ok (world_of (Some ''new'')) = (world_of (Some ''new''), Inr fresh)"
  by (simp add: load_creds_def env_ok_def world_of_def fresh_def truthy_token_def)

lemma build_ok: "build env_ok service version c = None"
  by (simp add: env_ok_def)

lemma load_creds_issued_eq: "load_creds env w = (w1, r) \<Longrightarrow> issued w1 = issued w"
  using load_creds_issued [of env w] by simp

lemma batch_update_issued:
  "issued (fst (batch_update env w c document_id requests)) =
   issued w @ [DocumentsBatchUpdate document_id (JObj [(''requests'', JArr requests)])]"
  by (simp add: batch_update_def run_def split: sum.splits)

lemma format_range_load_failure:
  "load_creds env w = (w1, Inl x) \<Longrightarrow>
   format_range env w document_id start_index end_index format = (w1, Inl x)"
  by (simp add: format_range_def)




subsection \<open>Credential manager\<close>

text \<open>
  C1 (as the code has it). When \<^verbatim>\<open>load_creds\<close> attempts a refresh (the stored record is
  expired and holds a refresh token) and the refresh fails with text \<open>msg\<close>, the call
  fails with \<^verbatim>\<open>HTTPException(401)\<close> whose detail ends with \<open>msg\<close>, and the removal of
  the token file is attempted. When the removal succeeds, the state left behind holds no
  record, and the next call, whatever the collaborators \<open>env'\<close> do then, fails with 401
  through the branch of line 74 for a missing token file. When the removal fails, the
  failure is ignored and the state, with the stored record, is left as it was.
\<close>

theorem load_creds_refresh_failure:
  assumes "token_file w = Some text"
    and "parse_creds env text = Inr c"
    and "expired env c"
    and "truthy_token (refresh_token c)"
    and "refresh env c = Inl msg"
  shows "snd (load_creds env w) =
           Inl (HTTPException 401 (''Failed to refresh credentials: '' @ msg))
       \<and> (\<not> remove_fails env \<longrightarrow>
            load_creds env w =
              (w\<lparr>token_file := None\<rparr>,
               Inl (HTTPException 401 (''Failed to refresh credentials: '' @ msg)))
            \<and> token_file (fst (load_creds env w)) = None
            \<and> load_creds env' (fst (load_creds env w)) =
                (fst (load_creds env w),
                 Inl (HTTPException 401 ''User not authorized. Visit /authorize'')))
       \<and> (remove_fails env \<longrightarrow>
            load_creds env w =
              (w, Inl (HTTPException 401 (''Failed to refresh credentials: '' @ msg))))"
proof -
  have first: "load_creds env w = refresh_failed env w msg"
    using assms by (simp add: load_creds_def)
  show ?thesis
  proof (cases "remove_fails env")
    case True
    with first show ?thesis
      by (simp add: refresh_failed_def)
  next
    case False
    with first have removed: "load_creds env w =
        (w\<lparr>token_file := None\<rparr>,
         Inl (HTTPException 401 (''Failed to refresh credentials: '' @ msg)))"
      by (simp add: refresh_failed_def)
    then have gone: "token_file (fst (load_creds env w)) = None"
      by simp
    from gone have "load_creds env' (fst (load_creds env w)) =
        (fst (load_creds env w),
         Inl (HTTPException 401 ''User not authorized. Visit /authorize''))"
      by (rule load_creds_absent)
    with removed gone False show ?thesis
      by simp
  qed
qed

theorem load_creds_refresh_failure_witness:
  "token_file (world_of (Some ''old'')) = Some ''old''
   \<and> parse_creds env_revoked ''old'' = Inr stale
   \<and> expired env_revoked stale
   \<and> truthy_token (refresh_token stale)
   \<and> refresh env_revoked stale = Inl ''invalid_grant''
   \<and> \<not> remove_fails env_revoked
   \<and> load_creds env_revoked (world_of (Some ''old'')) =
        (world_of None,
         Inl (HTTPException 401 ''Failed to refresh credentials: invalid_grant''))
   \<and> load_creds env_ok (world_of None) =
        (world_of None, Inl (HTTPException 401 ''User not authorized. Visit /authorize''))
   \<and> remove_fails env_readonly
   \<and> load_creds env_readonly (world_of (Some ''old'')) =
        (world_of (Some ''old''),
         Inl (HTTPException 401 ''Failed to refresh credentials: invalid_grant''))"
  using load_creds_refresh_failure
    [of "world_of (Some ''old'')" "''old''" env_revoked stale "''invalid_grant''" env_ok]
    load_creds_refresh_failure
    [of "world_of (Some ''old'')" "''old''" env_readonly stale "''invalid_grant''" env_ok]
  by (simp add: load_creds_def refresh_failed_def env_readonly_def env_revoked_def env_ok_def
      world_of_def stale_def truthy_token_def)

text \<open>
  C1 as stated fails when the token file cannot be removed: the refresh of the stored
  record \<open>stale\<close> is rejected, 401 is raised, and the record is still in the store
  afterwards, so that the next call does not take the branch of line 74 but attempts the
  refresh again.
\<close>

theorem load_creds_remove_fails_counterexample:
  "parse_creds env_readonly ''old'' = Inr stale
   \<and> expired env_readonly stale
   \<and> truthy_token (refresh_token stale)
   \<and> refresh env_readonly stale = Inl ''invalid_grant''
   \<and> snd (load_creds env_readonly (world_of (Some ''old''))) =
       Inl (HTTPException 401 ''Failed to refresh credentials: invalid_grant'')
   \<and> token_file (fst (load_creds env_readonly (world_of (Some ''old'')))) = Some ''old''
   \<and> snd (load_creds env_readonly (fst (load_creds env_readonly (world_of (Some ''old''))))) =
       Inl (HTTPException 401 ''Failed to refresh credentials: invalid_grant'')"
  by (simp add: load_creds_def refresh_failed_def env_readonly_def env_revoked_def env_ok_def
      world_of_def stale_def truthy_token_def)




text \<open>
  C3 (as the code has it). An expired record without a refresh token (absent or empty) is
  not refreshed and not discarded: the guard of line 82 is false, so \<^verbatim>\<open>load_creds\<close>
  returns the record unchanged and leaves the token file as it was, whatever a refresh
  \<open>r\<close> would have answered.
\<close>

theorem load_creds_without_refresh_token:
  assumes "token_file w = Some text"
    and "parse_creds env text = Inr c"
    and "expired env c"
    and "\<not> truthy_token (refresh_token c)"
  shows "load_creds (env\<lparr>refresh := r\<rparr>) w = (w, Inr c)"
  using assms by (simp add: load_creds_def)

theorem load_creds_without_refresh_token_witness:
  "token_file (world_of (Some ''lone'')) = Some ''lone''
   \<and> parse_creds env_ok ''lone'' = Inr orphan
   \<and> expired env_ok orphan
   \<and> \<not> truthy_token (refresh_token orphan)
   \<and> load_creds (env_ok\<lparr>refresh := (\<lambda>c. Inl ''invalid_grant'')\<rparr>) (world_of (Some ''lone''))
       = (world_of (Some ''lone''), Inr orphan)"
  using load_creds_without_refresh_token
    [of "world_of (Some ''lone'')" "''lone''" env_ok orphan "\<lambda>c. Inl ''invalid_grant''"]
  by (simp add: load_creds_def env_ok_def world_of_def orphan_def truthy_token_def)

text \<open>
  C3 as stated fails: with the record \<open>orphan\<close> (expired at time 1000, no refresh token)
  in the token file, \<^verbatim>\<open>load_creds\<close> returns that very record and the file is still
  there afterwards.
\<close>

theorem load_creds_expired_orphan_counterexample:
  "parse_creds env_ok ''lone'' = Inr orphan
   \<and> expired env_ok orphan
   \<and> refresh_token orphan = None
   \<and> snd (load_creds env_ok (world_of (Some ''lone''))) = Inr orphan
   \<and> token_file (fst (load_creds env_ok (world_of (Some ''lone'')))) = Some ''lone''"
  by (simp add: load_creds_def env_ok_def world_of_def orphan_def truthy_token_def)

subsection \<open>Authorization flow\<close>

text \<open>
  C9. A callback without a \<^verbatim>\<open>code\<close> query parameter raises
  \<^verbatim>\<open>HTTPException(400, "No code in callback")\<close>, which FastAPI answers with status 400,
  and the token file is not written: the state is returned unchanged.
\<close>

theorem oauth2callback_no_code:
  assumes "query_params ''code'' = None"
  shows "oauth2callback env w query_params = (w, Inl (HTTPException 400 ''No code in callback''))
       \<and> status_code (fastapi_response (snd (oauth2callback env w query_params))) = 400
       \<and> token_file (fst (oauth2callback env w query_params)) = token_file w"
  using assms by (simp add: oauth2callback_def fastapi_response_def)

theorem oauth2callback_no_code_witness:
  "[''state'' \<mapsto> ''xyz''] ''code'' = None
   \<and> oauth2callback env_ok (world_of (Some ''old'')) [''state'' \<mapsto> ''xyz'']
       = (world_of (Some ''old''), Inl (HTTPException 400 ''No code in callback''))
   \<and> status_code (fastapi_response
        (snd (oauth2callback env_ok (world_of (Some ''old'')) [''state'' \<mapsto> ''xyz'']))) = 400"
  using oauth2callback_no_code [of "[''state'' \<mapsto> ''xyz'']" env_ok "world_of (Some ''old'')"]
  by (simp add: world_of_def oauth2callback_def fastapi_response_def)

subsection \<open>Formatting a range\<close>

text \<open>
  C10. \<^verbatim>\<open>format_range\<close> loads the credentials before it looks at the format: with no
  token file it fails with 401 for every format, supported or not, and more generally
  every failure of \<^verbatim>\<open>load_creds\<close> is the failure of \<^verbatim>\<open>format_range\<close>, so that line 184
  is reached only after \<^verbatim>\<open>load_creds\<close> has returned a record.
\<close>

theorem format_range_credentials_first:
  "(token_file w = None \<longrightarrow>
      format_range env w document_id start_index end_index format =
        (w, Inl (HTTPException 401 ''User not authorized. Visit /authorize'')))
   \<and> (\<forall>w1 x. load_creds env w = (w1, Inl x) \<longrightarrow>
        format_range env w document_id start_index end_index format = (w1, Inl x))"
  by (simp add: format_range_load_failure load_creds_absent)

theorem format_range_credentials_first_witness:
  "token_file (world_of None) = None
   \<and> format_range env_ok (world_of None) (JStr ''D'') (JInt 1) (JInt 5) (JStr ''underline'') =
        (world_of None, Inl (HTTPException 401 ''User not authorized. Visit /authorize''))
   \<and> load_creds env_revoked (world_of (Some ''old'')) =
        (world_of None,
         Inl (HTTPException 401 ''Failed to refresh credentials: invalid_grant''))
   \<and> format_range env_revoked (world_of (Some ''old'')) (JStr ''D'') (JInt 1) (JInt 5)
        (JStr ''underline'') =
        (world_of None,
         Inl (HTTPException 401 ''Failed to refresh credentials: invalid_grant''))"
proof -
  have a: "token_file (world_of None) = None"
    by (simp add: world_of_def)
  have b: "load_creds env_revoked (world_of (Some ''old'')) =
        (world_of None,
         Inl (HTTPException 401 ''Failed to refresh credentials: invalid_grant''))"
    by (simp add: load_creds_def refresh_failed_def env_revoked_def env_ok_def world_of_def
        stale_def truthy_token_def)
  from a b
    format_range_credentials_first
      [of "world_of None" env_ok "JStr ''D''" "JInt 1" "JInt 5" "JStr ''underline''"]
    format_range_credentials_first
      [of "world_of (Some ''old'')" env_revoked "JStr ''D''" "JInt 1" "JInt 5"
          "JStr ''underline''"]
  show ?thesis by blast
qed

text \<open>
  C4 (as the code has it). With a format other than \<^verbatim>\<open>bold\<close>, \<^verbatim>\<open>italic\<close> and
  \<^verbatim>\<open>heading1\<close>, \<^verbatim>\<open>format_range\<close> fails and executes no remote request. Once the
  credentials are loaded and the client is built, the failure is the plain exception
  \<^verbatim>\<open>Exception("unsupported format")\<close> of line 184, which the last \<^verbatim>\<open>except\<close> clause of
  \<^verbatim>\<open>mcp_endpoint\<close> reports with status 500: in the error envelope when the \<^verbatim>\<open>id\<close> of
  the request can be rendered, and in the plain 500 answer of the framework when it
  cannot.
\<close>

theorem format_range_unsupported:
  assumes "format \<noteq> JStr ''bold''"
    and "format \<noteq> JStr ''italic''"
    and "format \<noteq> JStr ''heading1''"
  shows "issued (fst (format_range env w document_id start_index end_index format)) = issued w
       \<and> (\<exists>x. snd (format_range env w document_id start_index end_index format) = Inl x)
       \<and> (\<forall>w1 c. load_creds env w = (w1, Inr c) \<longrightarrow> build env ''docs'' ''v1'' c = None \<longrightarrow>
            format_range env w document_id start_index end_index format =
              (w1, Inl (Error ''unsupported format''))
            \<and> dispatch env w (JStr ''format_range'')
                 (JObj [(''documentId'', document_id), (''start_index'', start_index),
                        (''end_index'', end_index), (''format'', format)]) =
              (w1, Inl (Error ''unsupported format''))
            \<and> mcp_endpoint env w
                 (JObj [(''method'', JStr ''format_range''),
                        (''params'',
                         JObj [(''documentId'', document_id), (''start_index'', start_index),
                               (''end_index'', end_index), (''format'', format)]),
                        (''id'', request_id)]) =
              (w1, JSONResponse env (error_envelope request_id ''unsupported format'') 500)
            \<and> status_code (fastapi_response
                 (JSONResponse env (error_envelope request_id ''unsupported format'') 500)) = 500
            \<and> (renderable request_id \<longrightarrow>
                 JSONResponse env (error_envelope request_id ''unsupported format'') 500 =
                   Inr \<lparr>status_code = 500,
                        content = Json (error_envelope request_id ''unsupported format'')\<rparr>))"
proof -
  obtain w1 r where lc: "load_creds env w = (w1, r)"
    by (cases "load_creds env w")
  then have same: "issued w1 = issued w"
    by (rule load_creds_issued_eq)
  have fr: "format_range env w document_id start_index end_index format =
      (w1, case r of Inl x \<Rightarrow> Inl x
           | Inr c \<Rightarrow> (case build env ''docs'' ''v1'' c of
                         Some x \<Rightarrow> Inl x | None \<Rightarrow> Inl (Error ''unsupported format'')))"
    using assms lc by (simp add: format_range_def split: sum.splits option.splits)
  have quiet: "issued (fst (format_range env w document_id start_index end_index format)) = issued w"
    using fr same by simp
  have fails: "\<exists>x. snd (format_range env w document_id start_index end_index format) = Inl x"
    using fr by (simp split: sum.splits option.splits)
  have gen: "format_range env w document_id start_index end_index format =
               (w2, Inl (Error ''unsupported format''))
           \<and> dispatch env w (JStr ''format_range'')
                 (JObj [(''documentId'', document_id), (''start_index'', start_index),
                        (''end_index'', end_index), (''format'', format)]) =
              (w2, Inl (Error ''unsupported format''))
           \<and> mcp_endpoint env w
                 (JObj [(''method'', JStr ''format_range''),
                        (''params'',
                         JObj [(''documentId'', document_id), (''start_index'', start_index),
                               (''end_index'', end_index), (''format'', format)]),
                        (''id'', request_id)]) =
              (w2, JSONResponse env (error_envelope request_id ''unsupported format'') 500)"
    if ok: "load_creds env w = (w2, Inr c)" and built: "build env ''docs'' ''v1'' c = None"
    for w2 c
  proof -
    have f: "format_range env w document_id start_index end_index format =
               (w2, Inl (Error ''unsupported format''))"
      using assms ok built by (simp add: format_range_def)
    have d: "dispatch env w (JStr ''format_range'')
                 (JObj [(''documentId'', document_id), (''start_index'', start_index),
                        (''end_index'', end_index), (''format'', format)]) =
              (w2, Inl (Error ''unsupported format''))"
      using f by (simp add: dispatch_def getitem_def)
    have m: "mcp_endpoint env w
                 (JObj [(''method'', JStr ''format_range''),
                        (''params'',
                         JObj [(''documentId'', document_id), (''start_index'', start_index),
                               (''end_index'', end_index), (''format'', format)]),
                        (''id'', request_id)]) =
              (w2, JSONResponse env (error_envelope request_id ''unsupported format'') 500)"
      using d by (simp add: mcp_endpoint_def request_params_def dict_get_def)
    from f d m show ?thesis by simp
  qed
  have status: "status_code (fastapi_response
      (JSONResponse env (error_envelope request_id ''unsupported format'') 500)) = 500"
    by (simp add: JSONResponse_status)
  have rendered: "JSONResponse env (error_envelope request_id ''unsupported format'') 500 =
      Inr \<lparr>status_code = 500,
           content = Json (error_envelope request_id ''unsupported format'')\<rparr>"
    if "renderable request_id"
    using that
    by (simp add: JSONResponse_def renderable_error_envelope utf8_ok_Cons utf8_ok_Nil)
  from quiet fails gen status rendered show ?thesis by blast
qed

theorem format_range_unsupported_witness:
  "JStr ''underline'' \<noteq> JStr ''bold'' \<and> JStr ''underline'' \<noteq> JStr ''italic''
   \<and> JStr ''underline'' \<noteq> JStr ''heading1''
   \<and> load_creds env_ok (world_of (Some ''new'')) = (world_of (Some ''new''), Inr fresh)
   \<and> build env_ok ''docs'' ''v1'' fresh = None
   \<and> issued (fst (format_range env_ok (world_of (Some ''new'')) (JStr ''D'') (JInt 1) (JInt 5)
        (JStr ''underline''))) = []
   \<and> format_range env_ok (world_of (Some ''new'')) (JStr ''D'') (JInt 1) (JInt 5)
        (JStr ''underline'') = (world_of (Some ''new''), Inl (Error ''unsupported format''))
   \<and> renderable (JStr ''7'')
   \<and> mcp_endpoint env_ok (world_of (Some ''new'')) underline_request =
        (world_of (Some ''new''),
         Inr \<lparr>status_code = 500,
              content = Json (error_envelope (JStr ''7'') ''unsupported format'')\<rparr>)"
  using format_range_unsupported
    [of "JStr ''underline''" env_ok "world_of (Some ''new'')" "JStr ''D''" "JInt 1" "JInt 5"
        "JStr ''7''"]
  by (simp add: load_creds_fresh build_ok underline_request_def world_of_simps utf8_ok_Cons
      utf8_ok_Nil)

text \<open>
  C4 as stated fails: with valid credentials stored, the request for the format
  \<^verbatim>\<open>underline\<close> is answered with status 500, not 400.
\<close>

theorem format_range_underline_counterexample:
  "mcp_endpoint env_ok (world_of (Some ''new'')) underline_request =
     (world_of (Some ''new''),
      Inr \<lparr>status_code = 500,
           content = Json (JObj [(''jsonrpc'', JStr ''2.0''), (''id'', JStr ''7''),
                                 (''error'', JObj [(''message'', JStr ''unsupported format'')])])\<rparr>)"
  by (simp add: mcp_endpoint_def underline_request_def request_params_def dict_get_def
      dispatch_def getitem_def format_range_def load_creds_fresh build_ok
      JSONResponse_def error_envelope_def utf8_ok_Cons utf8_ok_Nil)

text \<open>
  C8 (as the code has it). Once \<^verbatim>\<open>load_creds\<close> has returned a record and the Docs client
  is built, \<^verbatim>\<open>format_range\<close> executes exactly one request, a batch update of the
  document, whatever the remote answer: for \<^verbatim>\<open>bold\<close> and \<^verbatim>\<open>italic\<close> a single
  \<^verbatim>\<open>updateTextStyle\<close> over the range whose \<^verbatim>\<open>textStyle\<close> has that one field set to true
  and whose \<^verbatim>\<open>fields\<close> is the name of that field; for \<^verbatim>\<open>heading1\<close> a single
  \<^verbatim>\<open>updateParagraphStyle\<close> over the range setting \<^verbatim>\<open>namedStyleType\<close> to
  \<^verbatim>\<open>HEADING_1\<close>.
\<close>

theorem format_range_requests:
  assumes "load_creds env w = (w1, Inr c)"
    and "build env ''docs'' ''v1'' c = None"
  shows "issued (fst (format_range env w document_id start_index end_index (JStr ''bold''))) =
           issued w @
           [DocumentsBatchUpdate document_id
              (JObj [(''requests'', JArr [JObj [(''updateTextStyle'',
                 JObj [(''range'', JObj [(''startIndex'', start_index), (''endIndex'', end_index)]),
                       (''textStyle'', JObj [(''bold'', JBool True)]),
                       (''fields'', JStr ''bold'')])]])])]
       \<and> issued (fst (format_range env w document_id start_index end_index (JStr ''italic''))) =
           issued w @
           [DocumentsBatchUpdate document_id
              (JObj [(''requests'', JArr [JObj [(''updateTextStyle'',
                 JObj [(''range'', JObj [(''startIndex'', start_index), (''endIndex'', end_index)]),
                       (''textStyle'', JObj [(''italic'', JBool True)]),
                       (''fields'', JStr ''italic'')])]])])]
       \<and> issued (fst (format_range env w document_id start_index end_index (JStr ''heading1''))) =
           issued w @
           [DocumentsBatchUpdate document_id
              (JObj [(''requests'', JArr [JObj [(''updateParagraphStyle'',
                 JObj [(''range'', JObj [(''startIndex'', start_index), (''endIndex'', end_index)]),
                       (''paragraphStyle'', JObj [(''namedStyleType'', JStr ''HEADING_1'')]),
                       (''fields'', JStr ''namedStyleType'')])]])])]"
proof -
  have same: "issued w1 = issued w"
    using assms(1) by (rule load_creds_issued_eq)
  have step: "issued (fst (format_range env w document_id start_index end_index format)) =
      issued w @ [DocumentsBatchUpdate document_id (JObj [(''requests'', JArr [req])])]"
    if "format_range env w document_id start_index end_index format =
          batch_update env w1 c document_id [req]" for format req
    using that same by (simp add: batch_update_issued)
  have b: "format_range env w document_id start_index end_index (JStr ''bold'') =
      batch_update env w1 c document_id
        [text_style_request start_index end_index [(''bold'', JBool True)]]"
    using assms by (simp add: format_range_def)
  have i: "format_range env w document_id start_index end_index (JStr ''italic'') =
      batch_update env w1 c document_id
        [text_style_request start_index end_index [(''italic'', JBool True)]]"
    using assms by (simp add: format_range_def)
  have h: "format_range env w document_id start_index end_index (JStr ''heading1'') =
      batch_update env w1 c document_id [paragraph_style_request start_index end_index]"
    using assms by (simp add: format_range_def)
  from step [OF b] step [OF i] step [OF h] show ?thesis
    by (simp add: text_style_request_def paragraph_style_request_def)
qed

theorem format_range_requests_witness:
  "load_creds env_ok (world_of (Some ''new'')) = (world_of (Some ''new''), Inr fresh)
   \<and> build env_ok ''docs'' ''v1'' fresh = None
   \<and> issued (fst (format_range env_ok (world_of (Some ''new'')) (JStr ''D'') (JInt 1) (JInt 5)
        (JStr ''bold''))) =
       [DocumentsBatchUpdate (JStr ''D'')
          (JObj [(''requests'', JArr [JObj [(''updateTextStyle'',
             JObj [(''range'', JObj [(''startIndex'', JInt 1), (''endIndex'', JInt 5)]),
                   (''textStyle'', JObj [(''bold'', JBool True)]),
                   (''fields'', JStr ''bold'')])]])])]
   \<and> issued (fst (format_range env_ok (world_of (Some ''new'')) (JStr ''D'') (JInt 1) (JInt 5)
        (JStr ''heading1''))) =
       [DocumentsBatchUpdate (JStr ''D'')
          (JObj [(''requests'', JArr [JObj [(''updateParagraphStyle'',
             JObj [(''range'', JObj [(''startIndex'', JInt 1), (''endIndex'', JInt 5)]),
                   (''paragraphStyle'', JObj [(''namedStyleType'', JStr ''HEADING_1'')]),
                   (''fields'', JStr ''namedStyleType'')])]])])]"
  using format_range_requests
    [of env_ok "world_of (Some ''new'')" "world_of (Some ''new'')" fresh "JStr ''D''" "JInt 1"
        "JInt 5"]
  by (simp add: load_creds_fresh build_ok world_of_simps)

text \<open>
  C8 as stated fails for the calls that do not pass the credential check: with no token
  file a \<^verbatim>\<open>bold\<close> call fails with 401 and executes no request at all.
\<close>

theorem format_range_unauthorized_counterexample:
  "format_range env_ok (world_of None) (JStr ''D'') (JInt 1) (JInt 5) (JStr ''bold'') =
     (world_of None, Inl (HTTPException 401 ''User not authorized. Visit /authorize''))
   \<and> issued (fst (format_range env_ok (world_of None) (JStr ''D'') (JInt 1) (JInt 5)
        (JStr ''bold''))) = []"
  by (simp add: format_range_def load_creds_def world_of_def)

subsection \<open>RPC dispatcher\<close>










end
